theory Spec2Isabelle
  imports Main
begin

section \<open>Speaker selection of the selector group chat\<close>

text \<open>
  A shallow embedding of \<^verbatim>\<open>_selector_group_chat.py\<close>: the manager's
  \<^verbatim>\<open>select_speaker\<close> and \<^verbatim>\<open>_mentioned_agents\<close>, and the validation done by
  the constructor of \<^verbatim>\<open>SelectorGroupChat\<close>. Python strings are modelled as
  \<^typ>\<open>string\<close>, a character standing for a code point below 256.
\<close>

subsection \<open>Python string primitives\<close>

text \<open>\<^verbatim>\<open>sep.join(xs)\<close>.\<close>

fun py_join :: "string \<Rightarrow> string list \<Rightarrow> string" where
  "py_join sep [] = []"
| "py_join sep [x] = x"
| "py_join sep (x # y # ys) = x @ sep @ py_join sep (y # ys)"

text \<open>\<^verbatim>\<open>str.isspace\<close> on one character (code points below 256).\<close>

definition is_space :: "char \<Rightarrow> bool" where
  "is_space c = (let n = (of_char c :: nat) in
     (9 \<le> n \<and> n \<le> 13) \<or> (28 \<le> n \<and> n \<le> 32) \<or> n = 133 \<or> n = 160)"

text \<open>\<^verbatim>\<open>s.strip()\<close>: whitespace removed at both ends.\<close>

definition py_strip :: "string \<Rightarrow> string" where
  "py_strip s = rev (dropWhile is_space (rev (dropWhile is_space s)))"

text \<open>\<^verbatim>\<open>pat in s\<close> for strings: \<open>pat\<close> occurs as a contiguous substring.\<close>

fun startswith :: "string \<Rightarrow> string \<Rightarrow> bool" where
  "startswith s [] = True"
| "startswith [] (p # ps) = False"
| "startswith (c # cs) (p # ps) = (c = p \<and> startswith cs ps)"

fun py_in :: "string \<Rightarrow> string \<Rightarrow> bool" where
  "py_in pat [] = (pat = [])"
| "py_in pat (c # cs) = (startswith (c # cs) pat \<or> py_in pat cs)"

text \<open>\<^verbatim>\<open>name.replace("_", r)\<close>: every underscore replaced by \<open>r\<close>.\<close>

fun replace_underscore :: "string \<Rightarrow> string \<Rightarrow> string" where
  "replace_underscore r [] = []"
| "replace_underscore r (c # cs) =
     (if c = CHR ''_'' then r @ replace_underscore r cs else c # replace_underscore r cs)"

text \<open>
  \<^verbatim>\<open>repr\<close> of a string and \<^verbatim>\<open>str\<close> of a list of strings, as used for
  \<^verbatim>\<open>str(participants)\<close>.
\<close>

definition hex_digit :: "nat \<Rightarrow> char" where
  "hex_digit n = (if n < 10 then char_of (48 + n) else char_of (87 + n))"

definition is_printable :: "char \<Rightarrow> bool" where
  "is_printable c = (let n = (of_char c :: nat) in
     \<not> (n < 32 \<or> (127 \<le> n \<and> n \<le> 160) \<or> n = 173))"

definition repr_char :: "char \<Rightarrow> char \<Rightarrow> string" where
  "repr_char quote c =
     (if c = quote \<or> c = CHR 0x5C then [CHR 0x5C, c]
      else if c = CHR 0x09 then [CHR 0x5C, CHR ''t'']
      else if c = CHR 0x0A then [CHR 0x5C, CHR ''n'']
      else if c = CHR 0x0D then [CHR 0x5C, CHR ''r'']
      else if is_printable c then [c]
      else [CHR 0x5C, CHR ''x'', hex_digit (of_char c div 16), hex_digit (of_char c mod 16)])"

definition py_repr :: "string \<Rightarrow> string" where
  "py_repr s =
     (let quote = (if CHR 0x27 \<in> set s \<and> CHR 0x22 \<notin> set s then CHR 0x22 else CHR 0x27)
      in [quote] @ concat (map (repr_char quote) s) @ [quote])"

definition py_str_list :: "string list \<Rightarrow> string" where
  "py_str_list xs = ''['' @ py_join '', '' (map py_repr xs) @ '']''"

subsection \<open>The regular expression of the mention matcher\<close>

text \<open>
  \<^verbatim>\<open>\w\<close> of Python's \<^verbatim>\<open>re\<close> on \<^verbatim>\<open>str\<close> patterns: alphanumeric characters and
  the underscore.
\<close>

definition is_word :: "char \<Rightarrow> bool" where
  "is_word c = (let n = (of_char c :: nat) in
     (48 \<le> n \<and> n \<le> 57) \<or> (65 \<le> n \<and> n \<le> 90) \<or> n = 95 \<or> (97 \<le> n \<and> n \<le> 122) \<or>
     n = 170 \<or> n = 178 \<or> n = 179 \<or> n = 181 \<or> n = 185 \<or> n = 186 \<or>
     (188 \<le> n \<and> n \<le> 190) \<or> (192 \<le> n \<and> n \<le> 214) \<or> (216 \<le> n \<and> n \<le> 246) \<or>
     (248 \<le> n \<and> n \<le> 255))"

text \<open>\<^verbatim>\<open>(?<=\W)\<close>: the character before the position exists and is not a word character.\<close>

fun lookbehind :: "char option \<Rightarrow> bool" where
  "lookbehind None = False"
| "lookbehind (Some c) = (\<not> is_word c)"

text \<open>\<^verbatim>\<open>(?=\W)\<close>: the next character exists and is not a word character.\<close>

fun lookahead :: "string \<Rightarrow> bool" where
  "lookahead [] = False"
| "lookahead (c # cs) = (\<not> is_word c)"

text \<open>
  The alternation \<^verbatim>\<open>(a1|a2|a3)(?=\W)\<close> at the start of the remaining text: the
  alternatives are escaped literals, tried in order; the first one that is followed by a
  non-word character is the match.
\<close>

fun match_alternatives :: "string list \<Rightarrow> string \<Rightarrow> string option" where
  "match_alternatives [] s = None"
| "match_alternatives (a # as) s =
     (if startswith s a \<and> lookahead (drop (length a) s) then Some a
      else match_alternatives as s)"

text \<open>
  The scan of \<^verbatim>\<open>re.finditer\<close>/\<^verbatim>\<open>re.findall\<close>: matches are searched from left to
  right and do not overlap. \<open>pos\<close> is the position of the head of the remaining text,
  \<open>prev\<close> the character before it, and \<open>skip\<close> the number of characters still covered
  by the last match. An empty match moves the scan on by one character.
\<close>

fun finditer_from :: "string list \<Rightarrow> nat \<Rightarrow> nat \<Rightarrow> char option \<Rightarrow> string \<Rightarrow> (nat \<times> string) list" where
  "finditer_from alts pos skip prev [] = []"
| "finditer_from alts pos skip prev (c # cs) =
     (if 0 < skip then finditer_from alts (Suc pos) (skip - 1) (Some c) cs
      else (case (if lookbehind prev then match_alternatives alts (c # cs) else None) of
              None \<Rightarrow> finditer_from alts (Suc pos) 0 (Some c) cs
            | Some m \<Rightarrow> (pos, m) # finditer_from alts (Suc pos) (length m - 1) (Some c) cs))"

definition re_finditer :: "string list \<Rightarrow> string \<Rightarrow> (nat \<times> string) list" where
  "re_finditer alts text = finditer_from alts 0 0 None text"

definition re_findall :: "string list \<Rightarrow> string \<Rightarrow> string list" where
  "re_findall alts text = map snd (re_finditer alts text)"

subsection \<open>\<^verbatim>\<open>_mentioned_agents\<close>\<close>

text \<open>The three alternatives of the pattern built for one name.\<close>

definition spellings :: "string \<Rightarrow> string list" where
  "spellings name =
     [name, replace_underscore '' '' name, replace_underscore [CHR 0x5C, CHR ''_''] name]"

text \<open>The message padded with a space on both sides.\<close>

definition pad :: "string \<Rightarrow> string" where
  "pad message_content = '' '' @ message_content @ '' ''"

definition mention_count :: "string \<Rightarrow> string \<Rightarrow> nat" where
  "mention_count message_content name = length (re_findall (spellings name) (pad message_content))"

text \<open>
  A Python dictionary keeps its keys in insertion order; \<^verbatim>\<open>d[k] = v\<close> overwrites the
  value of a key already present and appends a new key.
\<close>

fun dict_set :: "'k \<Rightarrow> 'v \<Rightarrow> ('k \<times> 'v) list \<Rightarrow> ('k \<times> 'v) list" where
  "dict_set k v [] = [(k, v)]"
| "dict_set k v ((k', v') # d) = (if k' = k then (k, v) # d else (k', v') # dict_set k v d)"

fun mentioned_loop :: "string \<Rightarrow> (string \<times> nat) list \<Rightarrow> string list \<Rightarrow> (string \<times> nat) list" where
  "mentioned_loop message_content mentions [] = mentions"
| "mentioned_loop message_content mentions (name # agent_names) =
     (let count = mention_count message_content name
      in mentioned_loop message_content
           (if 0 < count then dict_set name count mentions else mentions) agent_names)"

definition mentioned_agents :: "string \<Rightarrow> string list \<Rightarrow> (string \<times> nat) list" where
  "mentioned_agents message_content agent_names = mentioned_loop message_content [] agent_names"

subsection \<open>Messages, events and the manager\<close>

text \<open>An item of a multi-modal message: a string or an image.\<close>

datatype content_item = Str string | Image string

text \<open>
  The chat messages. \<open>OtherMessage\<close> stands for every message class other than the
  three the selector handles; it carries the rendering of \<^verbatim>\<open>type(msg)\<close>.
\<close>

datatype chat_message =
    TextMessage string string
  | MultiModalMessage string "content_item list"
  | StopMessage string string
  | OtherMessage string string

record agent_id =
  agent_type :: string
  agent_key :: string

record group_chat_publish_event =
  agent_message :: chat_message
  source :: "agent_id option"

text \<open>
  The exceptions of the module. \<open>Raised\<close> is an exception that a collaborator (the
  selector function, \<^verbatim>\<open>str.format\<close>, the model client, the constructor of the base
  class) raises and the code lets through.
\<close>

datatype error =
    UnexpectedMessageType string
  | ZipLengthMismatch
  | AssertionError
  | ExpectedExactlyOneAgent "(string \<times> nat) list"
  | AtLeastTwoParticipants
  | PromptMustContain string
  | Raised string

datatype llm_message = SystemMessage string

text \<open>The content of a completion: a string, or a list of function calls.\<close>

datatype completion_content = StrContent string | FunctionCalls

text \<open>
  The fields of \<^verbatim>\<open>SelectorGroupChatManager\<close> that \<^verbatim>\<open>select_speaker\<close> reads or
  writes. The model client is called at most once in a round, so within a round it is a
  function from the messages sent to the completion or the exception it raises.
\<close>

record manager =
  manager_id :: agent_id
  participant_topic_types :: "string list"
  participant_descriptions :: "string list"
  model_client :: "llm_message list \<Rightarrow> error + completion_content"
  selector_prompt :: string
  previous_speaker :: "string option"
  allow_repeated_speaker :: bool
  selector_func :: "(chat_message list \<Rightarrow> error + string option) option"

text \<open>What a round does to the outside, in order.\<close>

datatype effect =
    ModelCreate "llm_message list"
  | EventDebug string agent_id
  | TraceWarning string

text \<open>
  \<^verbatim>\<open>selector_prompt.format(roles=..., participants=..., history=...)\<close> is Python's
  own and is taken as a parameter: from the template and the three arguments to the
  prompt, or the exception raised.
\<close>

type_synonym formatter = "string \<Rightarrow> string \<Rightarrow> string \<Rightarrow> string \<Rightarrow> error + string"

subsection \<open>\<^verbatim>\<open>select_speaker\<close>\<close>

text \<open>Lines 58 to 60: the selector function, when there is one, on the messages of the thread.\<close>

definition try_selector_func :: "manager \<Rightarrow> group_chat_publish_event list \<Rightarrow> error + string option" where
  "try_selector_func st thread =
     (case selector_func st of
        None \<Rightarrow> Inr None
      | Some f \<Rightarrow> f (map agent_message thread))"

text \<open>Lines 78 to 82: the items of a multi-modal message appended to the line.\<close>

fun render_items :: "string \<Rightarrow> content_item list \<Rightarrow> string" where
  "render_items message [] = message"
| "render_items message (item # items) =
     render_items (case item of Str s \<Rightarrow> message @ '' '' @ s
                              | Image i \<Rightarrow> message @ '' [Image]'') items"

text \<open>Lines 68 to 84: the line of one event.\<close>

definition render_message :: "group_chat_publish_event \<Rightarrow> error + string" where
  "render_message event =
     (let message = (case source event of None \<Rightarrow> [] | Some src \<Rightarrow> agent_type src @ '':'')
      in case agent_message event of
           TextMessage s content \<Rightarrow> Inr (message @ '' '' @ content)
         | StopMessage s content \<Rightarrow> Inr (message @ '' '' @ content)
         | MultiModalMessage s items \<Rightarrow> Inr (render_items message items)
         | OtherMessage s ty \<Rightarrow> Inl (UnexpectedMessageType ty))"

text \<open>Lines 66 to 86: the loop over the thread and the join.\<close>

fun history_loop :: "string list \<Rightarrow> group_chat_publish_event list \<Rightarrow> error + string list" where
  "history_loop history_messages [] = Inr history_messages"
| "history_loop history_messages (event # thread) =
     (case render_message event of
        Inl e \<Rightarrow> Inl e
      | Inr message \<Rightarrow> history_loop (history_messages @ [message]) thread)"

definition render_history :: "group_chat_publish_event list \<Rightarrow> error + string" where
  "render_history thread =
     (case history_loop [] thread of
        Inl e \<Rightarrow> Inl e
      | Inr history_messages \<Rightarrow> Inr (py_join [CHR 0x0A] history_messages))"

text \<open>Lines 89 to 96: the roles; \<^verbatim>\<open>zip(..., strict=True)\<close> raises on lists of different lengths.\<close>

definition render_roles :: "manager \<Rightarrow> error + string" where
  "render_roles st =
     (if length (participant_topic_types st) \<noteq> length (participant_descriptions st)
      then Inl ZipLengthMismatch
      else Inr (py_join [CHR 0x0A]
             (map (\<lambda>(topic_type, description). py_strip (topic_type @ '': '' @ description))
                  (zip (participant_topic_types st) (participant_descriptions st)))))"

text \<open>Lines 99 to 102: the participants that can be selected.\<close>

definition candidates :: "manager \<Rightarrow> string list" where
  "candidates st =
     (if previous_speaker st \<noteq> None \<and> \<not> allow_repeated_speaker st
      then filter (\<lambda>p. Some p \<noteq> previous_speaker st) (participant_topic_types st)
      else participant_topic_types st)"

text \<open>Lines 107 to 122: the selection by the model.\<close>

definition model_select :: "formatter \<Rightarrow> manager \<Rightarrow> string \<Rightarrow> string list \<Rightarrow> string \<Rightarrow> (error + string) \<times> effect list" where
  "model_select fmt st roles participants history =
     (case fmt (selector_prompt st) roles (py_str_list participants) history of
        Inl e \<Rightarrow> (Inl e, [])
      | Inr select_speaker_prompt \<Rightarrow>
          (let select_speaker_messages = [SystemMessage select_speaker_prompt]
           in case model_client st select_speaker_messages of
                Inl e \<Rightarrow> (Inl e, [ModelCreate select_speaker_messages])
              | Inr FunctionCalls \<Rightarrow> (Inl AssertionError, [ModelCreate select_speaker_messages])
              | Inr (StrContent content) \<Rightarrow>
                  (let mentions = mentioned_agents content (participant_topic_types st)
                   in if length mentions \<noteq> 1
                      then (Inl (ExpectedExactlyOneAgent mentions), [ModelCreate select_speaker_messages])
                      else (case mentions of
                              [] \<Rightarrow> (Inl (ExpectedExactlyOneAgent mentions), [ModelCreate select_speaker_messages])
                            | (agent_name, n) # rest \<Rightarrow>
                                (Inr agent_name,
                                 ModelCreate select_speaker_messages #
                                 (if \<not> allow_repeated_speaker st \<and> previous_speaker st \<noteq> None
                                     \<and> Some agent_name = previous_speaker st
                                  then [TraceWarning (''Selector selected the previous speaker: '' @ agent_name)]
                                  else []))))))"

text \<open>
  Lines 50 to 127. The result is what the call returns or raises, the manager after the
  call, and what the call did to the outside.
\<close>

definition select_speaker :: "formatter \<Rightarrow> manager \<Rightarrow> group_chat_publish_event list \<Rightarrow> (error + string) \<times> manager \<times> effect list" where
  "select_speaker fmt st thread =
     (case try_selector_func st thread of
        Inl e \<Rightarrow> (Inl e, st, [])
      | Inr (Some speaker) \<Rightarrow> (Inr speaker, st, [EventDebug speaker (manager_id st)])
      | Inr None \<Rightarrow>
          (case render_history thread of
             Inl e \<Rightarrow> (Inl e, st, [])
           | Inr history \<Rightarrow>
               (case render_roles st of
                  Inl e \<Rightarrow> (Inl e, st, [])
                | Inr roles \<Rightarrow>
                    (case candidates st of
                       [] \<Rightarrow> (Inl AssertionError, st, [])
                     | p # ps \<Rightarrow>
                         (case (if 1 < length (p # ps)
                                then model_select fmt st roles (p # ps) history
                                else (Inr p, []))
                          of (Inl e, effs) \<Rightarrow> (Inl e, st, effs)
                           | (Inr agent_name, effs) \<Rightarrow>
                               (Inr agent_name,
                                st\<lparr>previous_speaker := Some agent_name\<rparr>,
                                effs @ [EventDebug agent_name (manager_id st)]))))))"

subsection \<open>The constructor of \<^verbatim>\<open>SelectorGroupChat\<close>\<close>

record chat_agent =
  name :: string
  description :: string

record selector_group_chat =
  team_selector_prompt :: string
  team_model_client :: "llm_message list \<Rightarrow> error + completion_content"
  team_allow_repeated_speaker :: bool
  team_selector_func :: "(chat_message list \<Rightarrow> error + string option) option"

text \<open>
  Lines 316 to 332. The constructor of the base class runs first; it is not part of this
  file and is taken as a parameter \<open>super_init\<close>, giving the exception it raises, if any.
\<close>

definition selector_group_chat_init ::
  "(chat_agent list \<Rightarrow> error option) \<Rightarrow> chat_agent list \<Rightarrow> (llm_message list \<Rightarrow> error + completion_content) \<Rightarrow>
   string \<Rightarrow> bool \<Rightarrow> (chat_message list \<Rightarrow> error + string option) option \<Rightarrow> error + selector_group_chat" where
  "selector_group_chat_init super_init participants client prompt allow_repeated func =
     (case super_init participants of
        Some e \<Rightarrow> Inl e
      | None \<Rightarrow>
          if length participants < 2 then Inl AtLeastTwoParticipants
          else if \<not> py_in ''{roles}'' prompt then Inl (PromptMustContain ''{roles}'')
          else if \<not> py_in ''{participants}'' prompt then Inl (PromptMustContain ''{participants}'')
          else if \<not> py_in ''{history}'' prompt then Inl (PromptMustContain ''{history}'')
          else Inr \<lparr>team_selector_prompt = prompt, team_model_client = client,
                    team_allow_repeated_speaker = allow_repeated, team_selector_func = func\<rparr>)"

text \<open>The default of the parameter \<^verbatim>\<open>selector_prompt\<close>.\<close>

definition default_selector_prompt :: string where
  "default_selector_prompt =
     ''You are in a role play game. The following roles are available:'' @ [CHR 0x0A] @
     ''{roles}.'' @ [CHR 0x0A] @
     ''Read the following conversation. Then select the next role from {participants} to play. Only return the role.'' @ [CHR 0x0A] @
     [CHR 0x0A] @
     ''{history}'' @ [CHR 0x0A] @
     [CHR 0x0A] @
     ''Read the above conversation. Then select the next role from {participants} to play. Only return the role.'' @ [CHR 0x0A]"

subsection \<open>A formatter for plain fields\<close>

text \<open>
  \<^verbatim>\<open>str.format\<close> on templates whose only braces are those of plain fields
  \<^verbatim>\<open>{name}\<close>: each field is replaced by the keyword argument of that name. It is used
  to run \<^verbatim>\<open>select_speaker\<close> on examples.
\<close>

fun format_go :: "(string \<Rightarrow> string option) \<Rightarrow> string option \<Rightarrow> string \<Rightarrow> error + string" where
  "format_go kw None [] = Inr []"
| "format_go kw (Some f) [] = Inl (Raised ''ValueError'')"
| "format_go kw None (c # cs) =
     (if c = CHR ''{'' then format_go kw (Some []) cs
      else if c = CHR ''}'' then Inl (Raised ''ValueError'')
      else (case format_go kw None cs of Inl e \<Rightarrow> Inl e | Inr r \<Rightarrow> Inr (c # r)))"
| "format_go kw (Some f) (c # cs) =
     (if c = CHR ''}''
      then (case kw (rev f) of
              None \<Rightarrow> Inl (Raised ''KeyError'')
            | Some v \<Rightarrow> (case format_go kw None cs of Inl e \<Rightarrow> Inl e | Inr r \<Rightarrow> Inr (v @ r)))
      else format_go kw (Some (c # f)) cs)"

definition plain_format :: formatter where
  "plain_format template roles participants history =
     format_go [''roles'' \<mapsto> roles, ''participants'' \<mapsto> participants, ''history'' \<mapsto> history]
       None template"

subsection \<open>Occurrences delimited by non-word characters\<close>

text \<open>
  The string \<open>m\<close> occurs in \<open>s\<close> at position \<open>p\<close>, the character before the
  occurrence and the character after it exist, and neither is a word character.
\<close>

definition delimited_occurrence :: "string \<Rightarrow> string \<Rightarrow> nat \<Rightarrow> bool" where
  "delimited_occurrence s m p =
     (0 < p \<and> p + length m < length s \<and> take (length m) (drop p s) = m \<and>
      \<not> is_word (s ! (p - 1)) \<and> \<not> is_word (s ! (p + length m)))"


text \<open>The character before offset \<open>i\<close> of the remaining text of a scan.\<close>

definition before :: "char option \<Rightarrow> string \<Rightarrow> nat \<Rightarrow> char option" where
  "before prev s i = (if i = 0 then prev else Some (s ! (i - 1)))"

text \<open>The pattern matches \<open>m\<close> at offset \<open>i\<close> of the remaining text.\<close>

definition occurs_at :: "string list \<Rightarrow> char option \<Rightarrow> string \<Rightarrow> nat \<Rightarrow> string \<Rightarrow> bool" where
  "occurs_at alts prev s i m =
     (m \<in> set alts \<and> i < length s \<and> lookbehind (before prev s i) \<and>
      startswith (drop i s) m \<and> lookahead (drop (i + length m) s))"

text \<open>The names of the list that the message mentions: those with a positive count.\<close>

definition mentioned_names :: "string \<Rightarrow> string list \<Rightarrow> string set" where
  "mentioned_names message_content agent_names =
     {n \<in> set agent_names. 0 < mention_count message_content n}"

subsection \<open>Example rounds\<close>

definition example_id :: agent_id where
  "example_id = \<lparr>agent_type = ''group_chat_manager'', agent_key = ''default''\<rparr>"

definition example_manager ::
  "string list \<Rightarrow> (llm_message list \<Rightarrow> error + completion_content) \<Rightarrow> string option \<Rightarrow> bool \<Rightarrow>
   (chat_message list \<Rightarrow> error + string option) option \<Rightarrow> manager" where
  "example_manager ps client prev allow func =
     \<lparr>manager_id = example_id,
      participant_topic_types = ps,
      participant_descriptions = map (\<lambda>p. ''agent'') ps,
      model_client = client,
      selector_prompt = ''{roles}|{participants}|{history}'',
      previous_speaker = prev,
      allow_repeated_speaker = allow,
      selector_func = func\<rparr>"

text \<open>A model client that answers every request with the same text.\<close>

definition answering :: "string \<Rightarrow> llm_message list \<Rightarrow> error + completion_content" where
  "answering a = (\<lambda>messages. Inr (StrContent a))"

definition text_event :: "string \<Rightarrow> string \<Rightarrow> group_chat_publish_event" where
  "text_event src content =
     \<lparr>agent_message = TextMessage src content,
      source = Some \<lparr>agent_type = src, agent_key = ''default''\<rparr>\<rparr>"

definition example_thread :: "group_chat_publish_event list" where
  "example_thread = [text_event ''user'' ''hi'']"

definition example_roles :: "string list \<Rightarrow> string" where
  "example_roles ps = py_join [CHR 0x0A] (map (\<lambda>p. p @ '': agent'') ps)"

definition example_prompt :: "string list \<Rightarrow> string list \<Rightarrow> string" where
  "example_prompt ps cs = example_roles ps @ ''|'' @ py_str_list cs @ ''|'' @ ''user: hi''"

definition other_event :: "string \<Rightarrow> string \<Rightarrow> group_chat_publish_event" where
  "other_event src ty =
     \<lparr>agent_message = OtherMessage src ty,
      source = Some \<lparr>agent_type = src, agent_key = ''default''\<rparr>\<rparr>"

definition failing :: "string \<Rightarrow> llm_message list \<Rightarrow> error + completion_content" where
  "failing e = (\<lambda>messages. Inl (Raised e))"

text \<open>
  A selector function that picks \<^verbatim>\<open>B\<close> when the thread has one message and gives no
  decision otherwise.
\<close>

definition example_hook :: "chat_message list \<Rightarrow> error + string option" where
  "example_hook messages = (if length messages = 1 then Inr (Some ''B'') else Inr None)"

subsection \<open>The transcript as the specification words it\<close>

definition spec_item :: "content_item \<Rightarrow> string" where
  "spec_item item = (case item of Str s \<Rightarrow> s | Image i \<Rightarrow> ''[Image]'')"

text \<open>
  The body of a message: the content of a text or stop message verbatim, the items of a
  multi-modal message joined by spaces; any other message is an error.
\<close>

definition spec_body :: "chat_message \<Rightarrow> error + string" where
  "spec_body msg =
     (case msg of
        TextMessage s content \<Rightarrow> Inr content
      | StopMessage s content \<Rightarrow> Inr content
      | MultiModalMessage s items \<Rightarrow> Inr (py_join '' '' (map spec_item items))
      | OtherMessage s ty \<Rightarrow> Inl (UnexpectedMessageType ty))"

text \<open>The prefix of a line: nothing for a null source, the source and a colon otherwise.\<close>

definition source_prefix :: "group_chat_publish_event \<Rightarrow> string" where
  "source_prefix event = (case source event of None \<Rightarrow> [] | Some src \<Rightarrow> agent_type src @ '':'')"

definition spec_line :: "group_chat_publish_event \<Rightarrow> error + string" where
  "spec_line event =
     (case spec_body (agent_message event) of
        Inl e \<Rightarrow> Inl e
      | Inr body \<Rightarrow> Inr (source_prefix event @ body))"

fun spec_lines :: "group_chat_publish_event list \<Rightarrow> error + string list" where
  "spec_lines [] = Inr []"
| "spec_lines (event # thread) =
     (case spec_line event of
        Inl e \<Rightarrow> Inl e
      | Inr line \<Rightarrow> (case spec_lines thread of Inl e \<Rightarrow> Inl e | Inr lines \<Rightarrow> Inr (line # lines)))"

definition spec_transcript :: "group_chat_publish_event list \<Rightarrow> error + string" where
  "spec_transcript thread =
     (case spec_lines thread of Inl e \<Rightarrow> Inl e | Inr lines \<Rightarrow> Inr (py_join [CHR 0x0A] lines))"

text \<open>The message is of one of the three classes that the selector renders.\<close>

fun supported :: "chat_message \<Rightarrow> bool" where
  "supported (OtherMessage s ty) = False"
| "supported msg = True"

text \<open>The body as the code renders it: every piece is preceded by a space.\<close>

fun rendered_body :: "chat_message \<Rightarrow> string" where
  "rendered_body (TextMessage s content) = '' '' @ content"
| "rendered_body (StopMessage s content) = '' '' @ content"
| "rendered_body (MultiModalMessage s items) = concat (map (\<lambda>item. '' '' @ spec_item item) items)"
| "rendered_body (OtherMessage s ty) = []"

definition rendered_line :: "group_chat_publish_event \<Rightarrow> string" where
  "rendered_line event = source_prefix event @ rendered_body (agent_message event)"

subsection \<open>The construction errors as the specification names them\<close>

text \<open>\<open>InvalidTemplate\<close>: one of the three "must contain" errors of lines 323 to 328.\<close>

fun invalid_template :: "error + selector_group_chat \<Rightarrow> bool" where
  "invalid_template (Inl (PromptMustContain f)) = True"
| "invalid_template r = False"

text \<open>\<open>InsufficientParticipants\<close>: the error of line 321.\<close>

fun insufficient_participants :: "error + selector_group_chat \<Rightarrow> bool" where
  "insufficient_participants (Inl AtLeastTwoParticipants) = True"
| "insufficient_participants r = False"

definition example_agent :: "string \<Rightarrow> chat_agent" where
  "example_agent n = \<lparr>name = n, description = ''agent''\<rparr>"

text \<open>A constructor of the base class that accepts every participant list.\<close>

definition accepting :: "chat_agent list \<Rightarrow> error option" where
  "accepting participants = None"




section \<open>Properties\<close>

subsection \<open>The scan of the regular expression\<close>

lemma startswith_iff: "startswith s p \<longleftrightarrow> take (length p) s = p"
  by (induction s p rule: startswith.induct) auto

lemma lookahead_iff: "lookahead s \<longleftrightarrow> s \<noteq> [] \<and> \<not> is_word (hd s)"
  by (cases s) auto

lemma match_alternatives_Some:
  "match_alternatives alts s = Some m \<Longrightarrow>
     m \<in> set alts \<and> startswith s m \<and> lookahead (drop (length m) s)"
  by (induction alts) (auto split: if_splits)

lemma match_alternatives_None:
  "match_alternatives alts s = None \<longleftrightarrow>
     (\<forall>m \<in> set alts. \<not> (startswith s m \<and> lookahead (drop (length m) s)))"
  by (induction alts) auto

lemma occurs_at_Cons:
  "occurs_at alts prev (c # cs) (Suc i) m = occurs_at alts (Some c) cs i m"
  by (auto simp: occurs_at_def before_def)

lemma finditer_from_sound:
  "(p, m) \<in> set (finditer_from alts pos skip prev s) \<Longrightarrow>
     pos + skip \<le> p \<and> occurs_at alts prev s (p - pos) m"
proof (induction s arbitrary: pos skip prev)
  case Nil
  then show ?case by simp
next
  case (Cons c cs)
  show ?case
  proof (cases "0 < skip")
    case True
    with Cons.prems have "(p, m) \<in> set (finditer_from alts (Suc pos) (skip - 1) (Some c) cs)"
      by simp
    from Cons.IH[OF this] have a: "Suc pos + (skip - 1) \<le> p" and b: "occurs_at alts (Some c) cs (p - Suc pos) m"
      by auto
    from a True have "p - pos = Suc (p - Suc pos)" by arith
    with a b True show ?thesis by (simp add: occurs_at_Cons)
  next
    case False
    define r where "r = (if lookbehind prev then match_alternatives alts (c # cs) else None)"
    show ?thesis
    proof (cases r)
      case None
      with Cons.prems False have "(p, m) \<in> set (finditer_from alts (Suc pos) 0 (Some c) cs)"
        by (simp add: r_def)
      from Cons.IH[OF this] have a: "Suc pos \<le> p" and b: "occurs_at alts (Some c) cs (p - Suc pos) m"
        by auto
      from a have "p - pos = Suc (p - Suc pos)" by arith
      with a b False show ?thesis by (simp add: occurs_at_Cons)
    next
      case (Some m')
      with Cons.prems False have
        "(p, m) = (pos, m') \<or> (p, m) \<in> set (finditer_from alts (Suc pos) (length m' - 1) (Some c) cs)"
        by (simp add: r_def)
      then show ?thesis
      proof
        assume eq: "(p, m) = (pos, m')"
        from Some have lb: "lookbehind prev" and ma: "match_alternatives alts (c # cs) = Some m'"
          by (auto simp: r_def split: if_splits)
        from match_alternatives_Some[OF ma] lb eq False show ?thesis
          by (auto simp: occurs_at_def before_def)
      next
        assume "(p, m) \<in> set (finditer_from alts (Suc pos) (length m' - 1) (Some c) cs)"
        from Cons.IH[OF this] have a: "Suc pos + (length m' - 1) \<le> p" and b: "occurs_at alts (Some c) cs (p - Suc pos) m"
          by auto
        from a have "p - pos = Suc (p - Suc pos)" by arith
        with a b False show ?thesis by (simp add: occurs_at_Cons)
      qed
    qed
  qed
qed



lemma finditer_from_complete:
  "finditer_from alts pos 0 prev s = [] \<Longrightarrow> \<not> occurs_at alts prev s i m"
proof (induction s arbitrary: pos prev i)
  case Nil
  then show ?case by (simp add: occurs_at_def)
next
  case (Cons c cs)
  define r where "r = (if lookbehind prev then match_alternatives alts (c # cs) else None)"
  from Cons.prems have rn: "r = None" and rest: "finditer_from alts (Suc pos) 0 (Some c) cs = []"
    by (auto simp: r_def split: option.splits)
  show ?case
  proof (cases i)
    case 0
    from rn have "\<not> lookbehind prev \<or> match_alternatives alts (c # cs) = None"
      by (auto simp: r_def split: if_splits)
    then show ?thesis using 0
      by (auto simp: occurs_at_def before_def match_alternatives_None)
  next
    case (Suc j)
    with Cons.IH[OF rest, of j] show ?thesis by (simp add: occurs_at_Cons)
  qed
qed

lemma occurs_at_top:
  "occurs_at alts None s p m \<longleftrightarrow> (m \<in> set alts \<and> delimited_occurrence s m p)"
proof (cases "p < length s")
  case False
  then show ?thesis by (auto simp: occurs_at_def delimited_occurrence_def)
next
  case True
  have "lookahead (drop (p + length m) s) \<longleftrightarrow> (p + length m < length s \<and> \<not> is_word (s ! (p + length m)))"
    by (auto simp: lookahead_iff hd_drop_conv_nth)
  moreover have "lookbehind (before None s p) \<longleftrightarrow> (0 < p \<and> \<not> is_word (s ! (p - 1)))"
    by (auto simp: before_def)
  ultimately show ?thesis using True
    by (auto simp: occurs_at_def delimited_occurrence_def startswith_iff)
qed

lemma re_finditer_sound:
  "(p, m) \<in> set (re_finditer alts s) \<Longrightarrow> m \<in> set alts \<and> delimited_occurrence s m p"
  using finditer_from_sound[of p m alts 0 0 None s] by (simp add: re_finditer_def occurs_at_top)


lemma re_finditer_empty:
  "re_finditer alts s = [] \<longleftrightarrow> \<not> (\<exists>p m. m \<in> set alts \<and> delimited_occurrence s m p)"
proof
  assume "re_finditer alts s = []"
  then show "\<not> (\<exists>p m. m \<in> set alts \<and> delimited_occurrence s m p)"
    using finditer_from_complete[of alts 0 None s] by (simp add: re_finditer_def occurs_at_top)
next
  assume n: "\<not> (\<exists>p m. m \<in> set alts \<and> delimited_occurrence s m p)"
  show "re_finditer alts s = []"
  proof (cases "re_finditer alts s")
    case Nil then show ?thesis .
  next
    case (Cons x xs)
    then have "(fst x, snd x) \<in> set (re_finditer alts s)" by simp
    from re_finditer_sound[OF this] n show ?thesis by blast
  qed
qed

subsection \<open>The mention matcher\<close>

lemma dict_set_map_of: "map_of (dict_set k v d) = (map_of d)(k \<mapsto> v)"
  by (induction k v d rule: dict_set.induct) (auto simp: fun_eq_iff)

lemma dict_set_keys: "fst ` set (dict_set k v d) = insert k (fst ` set d)"
proof -
  have "dom (map_of (dict_set k v d)) = insert k (dom (map_of d))"
    by (simp add: dict_set_map_of)
  then show ?thesis by (simp only: dom_map_of_conv_image_fst)
qed

lemma dict_set_distinct: "distinct (map fst d) \<Longrightarrow> distinct (map fst (dict_set k v d))"
  by (induction k v d rule: dict_set.induct) (auto simp: dict_set_keys)

lemma mentioned_loop_distinct:
  "distinct (map fst d) \<Longrightarrow> distinct (map fst (mentioned_loop s d names))"
  by (induction names arbitrary: d) (simp_all add: Let_def dict_set_distinct)

lemma mentioned_loop_keys:
  "fst ` set (mentioned_loop s d names) = fst ` set d \<union> mentioned_names s names"
proof (induction names arbitrary: d)
  case Nil
  then show ?case by (simp add: mentioned_names_def)
next
  case (Cons n names)
  have e: "mentioned_names s (n # names) =
          (if 0 < mention_count s n then {n} else {}) \<union> mentioned_names s names"
    by (auto simp: mentioned_names_def)
  show ?case
  proof (cases "0 < mention_count s n")
    case True
    then show ?thesis by (simp add: Cons.IH e dict_set_keys)
  next
    case False
    then show ?thesis by (simp add: Cons.IH e)
  qed
qed

lemma mentioned_loop_map_of:
  "map_of (mentioned_loop s d names) n =
     (if n \<in> set names \<and> 0 < mention_count s n then Some (mention_count s n) else map_of d n)"
  by (induction names arbitrary: d) (auto simp: Let_def dict_set_map_of)

lemma mentioned_agents_distinct: "distinct (map fst (mentioned_agents s names))"
  by (simp add: mentioned_agents_def mentioned_loop_distinct)

lemma mentioned_agents_keys: "fst ` set (mentioned_agents s names) = mentioned_names s names"
  by (simp add: mentioned_agents_def mentioned_loop_keys)

lemma mentioned_agents_map_of:
  "map_of (mentioned_agents s names) n =
     (if n \<in> set names \<and> 0 < mention_count s n then Some (mention_count s n) else None)"
  by (simp add: mentioned_agents_def mentioned_loop_map_of)

lemma mentioned_agents_length:
  "length (mentioned_agents s names) = card (mentioned_names s names)"
proof -
  have "card (set (map fst (mentioned_agents s names))) = length (map fst (mentioned_agents s names))"
    using mentioned_agents_distinct by (rule distinct_card)
  then show ?thesis by (simp add: mentioned_agents_keys)
qed

lemma mentioned_agents_single:
  "mentioned_names s names = {n} \<Longrightarrow> mentioned_agents s names = [(n, mention_count s n)]"
proof -
  assume a: "mentioned_names s names = {n}"
  then have "length (mentioned_agents s names) = 1"
    by (simp add: mentioned_agents_length)
  then obtain k v where e: "mentioned_agents s names = [(k, v)]"
    by (cases "mentioned_agents s names") auto
  with mentioned_agents_keys[of s names] a have k: "k = n" by simp
  from a have "n \<in> set names \<and> 0 < mention_count s n" by (auto simp: mentioned_names_def)
  with mentioned_agents_map_of[of s names n] e k have "v = mention_count s n" by simp
  with e k show ?thesis by simp
qed

lemma mention_count_positive:
  "0 < mention_count s n \<longleftrightarrow> (\<exists>p m. m \<in> set (spellings n) \<and> delimited_occurrence (pad s) m p)"
  using re_finditer_empty[of "spellings n" "pad s"]
  by (auto simp: mention_count_def re_findall_def)

lemma select_speaker_model_path_eq:
  assumes "try_selector_func st thread = Inr None"
    and "render_history thread = Inr history"
    and "render_roles st = Inr roles"
    and "1 < length (candidates st)"
  shows "select_speaker fmt st thread =
     (case model_select fmt st roles (candidates st) history of
        (Inl e, effs) \<Rightarrow> (Inl e, st, effs)
      | (Inr agent_name, effs) \<Rightarrow>
          (Inr agent_name, st\<lparr>previous_speaker := Some agent_name\<rparr>,
           effs @ [EventDebug agent_name (manager_id st)]))"
  using assms by (cases "candidates st") (simp_all add: select_speaker_def)

lemma model_select_answer:
  assumes "fmt (selector_prompt st) roles (py_str_list ps) history = Inr prompt"
    and "model_client st [SystemMessage prompt] = Inr (StrContent answer)"
  shows "model_select fmt st roles ps history =
     (case mentioned_agents answer (participant_topic_types st) of
        [(agent_name, n)] \<Rightarrow>
          (Inr agent_name,
           ModelCreate [SystemMessage prompt] #
             (if \<not> allow_repeated_speaker st \<and> Some agent_name = previous_speaker st
              then [TraceWarning (''Selector selected the previous speaker: '' @ agent_name)]
              else []))
      | mentions \<Rightarrow> (Inl (ExpectedExactlyOneAgent mentions), [ModelCreate [SystemMessage prompt]]))"
  using assms
  by (cases "mentioned_agents answer (participant_topic_types st)")
     (auto simp: model_select_def Let_def split: list.splits)

subsection \<open>The example rounds\<close>

lemma example_render_history: "render_history example_thread = Inr ''user: hi''"
  by (simp add: render_history_def render_message_def example_thread_def text_event_def)

lemma example_format:
  "plain_format ''{roles}|{participants}|{history}'' (example_roles ps) (py_str_list cs) ''user: hi'' =
     Inr (example_prompt ps cs)"
  by (simp add: plain_format_def example_prompt_def)

lemma example_render_roles:
  "render_roles (example_manager [''Alice'', ''Bob'', ''Carol''] client prev allow func) =
     Inr (example_roles [''Alice'', ''Bob'', ''Carol''])"
  by (simp add: render_roles_def example_manager_def example_roles_def py_strip_def is_space_def)

lemma example_try_none:
  "try_selector_func (example_manager ps client prev allow None) thread = Inr None"
  by (simp add: try_selector_func_def example_manager_def)

lemma example_mentions_Bob:
  "mentioned_agents ''Bob, Bob'' [''Alice'', ''Bob'', ''Carol''] = [(''Bob'', 2)]"
  by code_simp

lemma example_mentions_both:
  "mentioned_agents ''Both Alice and Bob should continue'' [''Alice'', ''Bob'', ''Carol''] =
     [(''Alice'', 1), (''Bob'', 1)]"
  by code_simp

lemma example_mentions_none:
  "mentioned_agents ''Nobody'' [''Alice'', ''Bob'', ''Carol''] = []"
  by code_simp

lemma example_candidates_all:
  "candidates (example_manager ps client None allow func) = ps"
  by (simp add: candidates_def example_manager_def)

lemma example_candidates_after_Bob:
  "candidates (example_manager [''Alice'', ''Bob'', ''Carol''] client (Some ''Bob'') False func) =
     [''Alice'', ''Carol'']"
  by (simp add: candidates_def example_manager_def)

lemma example_fields:
  "selector_prompt (example_manager ps client prev allow func) = ''{roles}|{participants}|{history}''"
  "model_client (example_manager ps client prev allow func) = client"
  "participant_topic_types (example_manager ps client prev allow func) = ps"
  "previous_speaker (example_manager ps client prev allow func) = prev"
  "allow_repeated_speaker (example_manager ps client prev allow func) = allow"
  "manager_id (example_manager ps client prev allow func) = example_id"
  by (simp_all add: example_manager_def)

lemma example_round_unsupported:
  "fst (select_speaker plain_format
          (example_manager [''Alice'', ''Bob'', ''Carol''] (answering ''Bob'') (Some ''Alice'') False None)
          [other_event ''Bob'' ''HandoffMessage'']) = Inl (UnexpectedMessageType ''HandoffMessage'')"
  by (simp add: select_speaker_def example_try_none render_history_def render_message_def
        other_event_def)

lemma example_candidates_after_Alice:
  "candidates (example_manager [''Alice'', ''Bob'', ''Carol''] client (Some ''Alice'') False func) =
     [''Bob'', ''Carol'']"
  by (simp add: candidates_def example_manager_def)

lemma example_round_client_fails:
  "fst (select_speaker plain_format
          (example_manager [''Alice'', ''Bob'', ''Carol''] (failing ''timeout'') (Some ''Alice'') False None)
          example_thread) = Inl (Raised ''timeout'')"
proof -
  let ?st = "example_manager [''Alice'', ''Bob'', ''Carol''] (failing ''timeout'') (Some ''Alice'') False None"
  have h4: "1 < length (candidates ?st)" by (simp add: example_candidates_after_Alice)
  have "model_select plain_format ?st (example_roles [''Alice'', ''Bob'', ''Carol''])
          (candidates ?st) ''user: hi'' =
        (Inl (Raised ''timeout''),
         [ModelCreate [SystemMessage (example_prompt [''Alice'', ''Bob'', ''Carol''] [''Bob'', ''Carol''])]])"
    by (simp add: model_select_def example_fields example_candidates_after_Alice example_format
          failing_def)
  then show ?thesis
    by (simp add: select_speaker_model_path_eq[OF example_try_none example_render_history
          example_render_roles h4])
qed

lemma example_round_ambiguous:
  "fst (select_speaker plain_format
          (example_manager [''Alice'', ''Bob'', ''Carol'']
             (answering ''Both Alice and Bob should continue'') (Some ''Alice'') False None)
          example_thread) =
     Inl (ExpectedExactlyOneAgent [(''Alice'', 1), (''Bob'', 1)])"
proof -
  let ?ps = "[''Alice'', ''Bob'', ''Carol'']"
  let ?st = "example_manager ?ps (answering ''Both Alice and Bob should continue'') (Some ''Alice'') False None"
  have h4: "1 < length (candidates ?st)" by (simp add: example_candidates_after_Alice)
  have h5: "plain_format (selector_prompt ?st) (example_roles ?ps) (py_str_list (candidates ?st)) ''user: hi'' =
              Inr (example_prompt ?ps [''Bob'', ''Carol''])"
    by (simp only: example_fields example_candidates_after_Alice example_format)
  have h6: "model_client ?st [SystemMessage (example_prompt ?ps [''Bob'', ''Carol''])] =
              Inr (StrContent ''Both Alice and Bob should continue'')"
    by (simp add: example_fields answering_def)
  show ?thesis
    by (simp add: select_speaker_model_path_eq[OF example_try_none example_render_history
          example_render_roles h4] model_select_answer[where fmt = plain_format, OF h5 h6]
          example_fields example_mentions_both)
qed



lemma example_finditer_Story_writer:
  "re_finditer (spellings ''Story_writer'') (pad ''Ask Story writer to continue'') =
     [(5, ''Story writer'')]"
  by code_simp

lemma example_mentions_Story:
  "mentioned_agents ''Story writer'' [''Story'', ''Story_writer''] =
     [(''Story'', 1), (''Story_writer'', 1)]"
  by code_simp

lemma example_render_roles_Story:
  "render_roles (example_manager [''Story'', ''Story_writer''] client prev allow func) =
     Inr (example_roles [''Story'', ''Story_writer''])"
  by (simp add: render_roles_def example_manager_def example_roles_def py_strip_def is_space_def)

lemma example_round_Story:
  "select_speaker plain_format
     (example_manager [''Story'', ''Story_writer''] (answering ''Story writer'') None False None)
     example_thread =
   (Inl (ExpectedExactlyOneAgent [(''Story'', 1), (''Story_writer'', 1)]),
    example_manager [''Story'', ''Story_writer''] (answering ''Story writer'') None False None,
    [ModelCreate [SystemMessage
       (example_prompt [''Story'', ''Story_writer''] [''Story'', ''Story_writer''])]])"
proof -
  let ?ps = "[''Story'', ''Story_writer'']"
  let ?st = "example_manager ?ps (answering ''Story writer'') None False None"
  have h4: "1 < length (candidates ?st)" by (simp add: example_candidates_all)
  have h5: "plain_format (selector_prompt ?st) (example_roles ?ps) (py_str_list (candidates ?st)) ''user: hi'' =
              Inr (example_prompt ?ps ?ps)"
    by (simp only: example_fields example_candidates_all example_format)
  have h6: "model_client ?st [SystemMessage (example_prompt ?ps ?ps)] =
              Inr (StrContent ''Story writer'')"
    by (simp add: example_fields answering_def)
  show ?thesis
    by (simp add: select_speaker_model_path_eq[OF example_try_none example_render_history
          example_render_roles_Story h4] model_select_answer[where fmt = plain_format, OF h5 h6]
          example_fields example_mentions_Story)
qed

lemma example_render_roles_AB:
  "render_roles (example_manager [''A'', ''B''] client prev allow func) =
     Inr (example_roles [''A'', ''B''])"
  by (simp add: render_roles_def example_manager_def example_roles_def py_strip_def is_space_def)

lemma example_candidates_after_A:
  "candidates (example_manager [''A'', ''B''] client (Some ''A'') False func) = [''B'']"
  by (simp add: candidates_def example_manager_def)

lemma select_speaker_single_candidate:
  assumes "try_selector_func st thread = Inr None"
    and "render_history thread = Inr history"
    and "render_roles st = Inr roles"
    and "candidates st = [p]"
  shows "select_speaker fmt st thread =
           (Inr p, st\<lparr>previous_speaker := Some p\<rparr>, [EventDebug p (manager_id st)])"
  using assms by (simp add: select_speaker_def)

lemma render_items_concat:
  "render_items message items = message @ concat (map (\<lambda>item. '' '' @ spec_item item) items)"
  by (induction items arbitrary: message) (auto simp: spec_item_def split: content_item.splits)

lemma render_message_supported:
  "supported (agent_message event) \<Longrightarrow> render_message event = Inr (rendered_line event)"
  by (cases "agent_message event")
     (auto simp: render_message_def rendered_line_def source_prefix_def render_items_concat
        split: option.splits)

lemma render_message_other:
  "agent_message event = OtherMessage src ty \<Longrightarrow> render_message event = Inl (UnexpectedMessageType ty)"
  by (simp add: render_message_def)

lemma history_loop_supported:
  "\<forall>event \<in> set thread. supported (agent_message event) \<Longrightarrow>
     history_loop acc thread = Inr (acc @ map rendered_line thread)"
  by (induction thread arbitrary: acc) (simp_all add: render_message_supported)

lemma history_loop_other:
  "\<forall>event \<in> set pre. supported (agent_message event) \<Longrightarrow>
   agent_message event = OtherMessage src ty \<Longrightarrow>
     history_loop acc (pre @ event # post) = Inl (UnexpectedMessageType ty)"
  by (induction pre arbitrary: acc) (simp_all add: render_message_supported render_message_other)

lemma concat_spaced_join:
  "items \<noteq> [] \<Longrightarrow>
     concat (map (\<lambda>item. '' '' @ spec_item item) items) = '' '' @ py_join '' '' (map spec_item items)"
proof (induction items)
  case Nil
  then show ?case by simp
next
  case (Cons i items)
  then show ?case by (cases items) auto
qed

lemma startswith_append: "startswith s p \<longleftrightarrow> (\<exists>post. s = p @ post)"
proof
  assume "startswith s p"
  then have "take (length p) s = p" by (simp add: startswith_iff)
  then have "s = p @ drop (length p) s" by (metis append_take_drop_id)
  then show "\<exists>post. s = p @ post" ..
next
  assume "\<exists>post. s = p @ post"
  then show "startswith s p" by (auto simp: startswith_iff)
qed

lemma py_in_substring: "py_in pat s \<longleftrightarrow> (\<exists>pre post. s = pre @ pat @ post)"
proof (induction s)
  case Nil
  then show ?case by auto
next
  case (Cons c cs)
  show ?case
  proof
    assume "py_in pat (c # cs)"
    then consider "startswith (c # cs) pat" | "py_in pat cs" by auto
    then show "\<exists>pre post. c # cs = pre @ pat @ post"
    proof cases
      case 1
      then obtain post where "c # cs = pat @ post" by (auto simp: startswith_append)
      then have "c # cs = [] @ pat @ post" by simp
      then show ?thesis by blast
    next
      case 2
      with Cons.IH obtain pre post where "cs = pre @ pat @ post" by auto
      then have "c # cs = (c # pre) @ pat @ post" by simp
      then show ?thesis by blast
    qed
  next
    assume "\<exists>pre post. c # cs = pre @ pat @ post"
    then obtain pre post where e: "c # cs = pre @ pat @ post" by auto
    show "py_in pat (c # cs)"
    proof (cases pre)
      case Nil
      with e have "startswith (c # cs) pat" by (auto simp: startswith_append)
      then show ?thesis by simp
    next
      case (Cons a pre')
      with e have "cs = pre' @ pat @ post" by simp
      with Cons.IH have "py_in pat cs" by blast
      then show ?thesis by simp
    qed
  qed
qed


















lemma example_finditer_Story:
  "re_finditer (spellings ''Story'') (pad ''Story writer'') = [(1, ''Story'')]"
  by code_simp

lemma example_finditer_Story_writer_short:
  "re_finditer (spellings ''Story_writer'') (pad ''Story writer'') = [(1, ''Story writer'')]"
  by code_simp

lemma example_occurrence_Story:
  "delimited_occurrence (pad ''Story writer'') ''Story'' 1"
  by code_simp

lemma example_occurrence_Story_writer:
  "delimited_occurrence (pad ''Story writer'') (replace_underscore '' '' ''Story_writer'') 1"
  by code_simp

lemma mentioned_two_names:
  assumes "n1 \<in> set names" and "n2 \<in> set names" and "n1 \<noteq> n2"
    and "0 < mention_count s n1" and "0 < mention_count s n2"
  shows "2 \<le> length (mentioned_agents s names)"
proof -
  have "{n1, n2} \<subseteq> mentioned_names s names"
    using assms by (auto simp: mentioned_names_def)
  moreover have "finite (mentioned_names s names)" by (simp add: mentioned_names_def)
  ultimately have "card {n1, n2} \<le> card (mentioned_names s names)" by (rule card_mono[rotated])
  with assms(3) show ?thesis by (simp add: mentioned_agents_length)
qed

lemma select_speaker_many_mentions:
  assumes "try_selector_func st thread = Inr None"
    and "render_history thread = Inr history"
    and "render_roles st = Inr roles"
    and "1 < length (candidates st)"
    and "fmt (selector_prompt st) roles (py_str_list (candidates st)) history = Inr prompt"
    and "model_client st [SystemMessage prompt] = Inr (StrContent answer)"
    and "2 \<le> length (mentioned_agents answer (participant_topic_types st))"
  shows "select_speaker fmt st thread =
           (Inl (ExpectedExactlyOneAgent (mentioned_agents answer (participant_topic_types st))),
            st, [ModelCreate [SystemMessage prompt]])"
proof -
  from assms(7) obtain x y r where "mentioned_agents answer (participant_topic_types st) = x # y # r"
    by (cases "mentioned_agents answer (participant_topic_types st)" rule: list.exhaust;
        cases "tl (mentioned_agents answer (participant_topic_types st))") auto
  then show ?thesis
    by (simp add: select_speaker_model_path_eq[OF assms(1-4), of fmt]
          model_select_answer[of fmt, OF assms(5,6)] split: prod.splits)
qed

section \<open>The claims\<close>

text \<open>
  C1. When the selector function is present and returns a participant for the messages of
  the thread, \<^verbatim>\<open>select_speaker\<close> returns exactly that participant, whatever the
  participant list and the previous speaker are; the only thing it does to the outside is
  to log the selection, so the model client is not called and neither the candidate filter
  nor the mention matcher touches the answer.
\<close>

theorem select_speaker_override:
  assumes "selector_func st = Some f"
    and "f (map agent_message thread) = Inr (Some speaker)"
  shows "select_speaker fmt st thread = (Inr speaker, st, [EventDebug speaker (manager_id st)])"
  using assms by (simp add: select_speaker_def try_selector_func_def)

theorem select_speaker_override_witness:
  "select_speaker plain_format
     (example_manager [''Alice'', ''Bob''] (answering ''Alice'') (Some ''Zed'') False
        (Some (\<lambda>messages. Inr (Some ''Zed''))))
     example_thread =
   (Inr ''Zed'',
    example_manager [''Alice'', ''Bob''] (answering ''Alice'') (Some ''Zed'') False
        (Some (\<lambda>messages. Inr (Some ''Zed''))),
    [EventDebug ''Zed'' example_id])"
  using select_speaker_override[of
     "example_manager [''Alice'', ''Bob''] (answering ''Alice'') (Some ''Zed'') False
        (Some (\<lambda>messages. Inr (Some ''Zed'')))"
     "\<lambda>messages. Inr (Some ''Zed'')" example_thread "''Zed''" plain_format]
  by (simp add: example_manager_def)

text \<open>
  C3. In a round that reaches the model (the selector function gives no decision, the
  history and the roles are rendered, more than one candidate is left, the prompt is
  formatted and the client answers with a text), the mention matcher runs on the answer
  against the full participant list. The round fails if and only if the number of
  participants mentioned with a positive count differs from one, and it then raises the
  "expected exactly one agent" error after the model call, with the manager unchanged. An
  answer that mentions exactly one participant, however often, selects that participant.
\<close>

theorem select_speaker_mention_decision:
  assumes "try_selector_func st thread = Inr None"
    and "render_history thread = Inr history"
    and "render_roles st = Inr roles"
    and "1 < length (candidates st)"
    and "fmt (selector_prompt st) roles (py_str_list (candidates st)) history = Inr prompt"
    and "model_client st [SystemMessage prompt] = Inr (StrContent answer)"
  shows "((\<exists>e. fst (select_speaker fmt st thread) = Inl e) \<longleftrightarrow>
            card (mentioned_names answer (participant_topic_types st)) \<noteq> 1) \<and>
         (card (mentioned_names answer (participant_topic_types st)) \<noteq> 1 \<longrightarrow>
            select_speaker fmt st thread =
              (Inl (ExpectedExactlyOneAgent (mentioned_agents answer (participant_topic_types st))),
               st, [ModelCreate [SystemMessage prompt]])) \<and>
         (\<forall>n. mentioned_names answer (participant_topic_types st) = {n} \<longrightarrow>
            fst (select_speaker fmt st thread) = Inr n \<and>
            fst (snd (select_speaker fmt st thread)) = st\<lparr>previous_speaker := Some n\<rparr>)"
proof -
  let ?ms = "mentioned_agents answer (participant_topic_types st)"
  let ?M = "mentioned_names answer (participant_topic_types st)"
  note eq = select_speaker_model_path_eq[OF assms(1-4), of fmt] model_select_answer[of fmt, OF assms(5,6)]
  have len: "length ?ms = card ?M" by (rule mentioned_agents_length)
  have fail: "select_speaker fmt st thread =
      (Inl (ExpectedExactlyOneAgent ?ms), st, [ModelCreate [SystemMessage prompt]])"
    if "card ?M \<noteq> 1"
  proof -
    from that len have "length ?ms \<noteq> 1" by simp
    then show ?thesis
      by (cases ?ms rule: list.exhaust; cases "tl ?ms") (auto simp: eq split: list.splits)
  qed
  have ok: "fst (select_speaker fmt st thread) = Inr n \<and>
            fst (snd (select_speaker fmt st thread)) = st\<lparr>previous_speaker := Some n\<rparr>"
    if "?M = {n}" for n
    using mentioned_agents_single[OF that] by (simp add: eq)
  have "card ?M = 1 \<Longrightarrow> \<not> (\<exists>e. fst (select_speaker fmt st thread) = Inl e)"
  proof -
    assume "card ?M = 1"
    then obtain n where "?M = {n}" by (auto simp: card_1_singleton_iff)
    from ok[OF this] show ?thesis by simp
  qed
  with fail ok show ?thesis by auto
qed

theorem select_speaker_mention_decision_witness:
  "mentioned_names ''Bob, Bob'' [''Alice'', ''Bob'', ''Carol''] = {''Bob''} \<and>
   mention_count ''Bob, Bob'' ''Bob'' = 2 \<and>
   fst (select_speaker plain_format
          (example_manager [''Alice'', ''Bob'', ''Carol''] (answering ''Bob, Bob'') None False None)
          example_thread) = Inr ''Bob''"
proof -
  let ?ps = "[''Alice'', ''Bob'', ''Carol'']"
  let ?st = "example_manager ?ps (answering ''Bob, Bob'') None False None"
  have m: "mentioned_names ''Bob, Bob'' ?ps = {''Bob''}"
    using mentioned_agents_keys[of "''Bob, Bob''" ?ps] by (simp add: example_mentions_Bob)
  have c: "mention_count ''Bob, Bob'' ''Bob'' = 2" by code_simp
  have h4: "1 < length (candidates ?st)" by (simp add: example_candidates_all)
  have h5: "plain_format (selector_prompt ?st) (example_roles ?ps) (py_str_list (candidates ?st)) ''user: hi'' =
              Inr (example_prompt ?ps ?ps)"
    by (simp only: example_fields example_candidates_all example_format)
  have h6: "model_client ?st [SystemMessage (example_prompt ?ps ?ps)] = Inr (StrContent ''Bob, Bob'')"
    by (simp add: example_fields answering_def)
  from select_speaker_mention_decision[where fmt = plain_format, OF example_try_none example_render_history
         example_render_roles h4 h5 h6] m c
  show ?thesis by (simp add: example_fields)
qed

text \<open>
  C6. A round that fails, whatever the failure (an unexpected message type met while the
  history is rendered, an exception of the model client, more or fewer than one mentioned
  participant, or any other), leaves the manager as it was before the round, so
  \<^verbatim>\<open>_previous_speaker\<close> keeps its value. A round that succeeds leaves the manager
  unchanged or changes \<^verbatim>\<open>_previous_speaker\<close> to the participant it returns, and
  nothing else.
\<close>

theorem select_speaker_failure_atomic:
  "(\<forall>e. fst (select_speaker fmt st thread) = Inl e \<longrightarrow>
        fst (snd (select_speaker fmt st thread)) = st) \<and>
   (\<forall>n. fst (select_speaker fmt st thread) = Inr n \<longrightarrow>
        fst (snd (select_speaker fmt st thread)) = st \<or>
        fst (snd (select_speaker fmt st thread)) = st\<lparr>previous_speaker := Some n\<rparr>)"
  by (auto simp: select_speaker_def split: sum.splits option.splits list.splits prod.splits if_splits)

theorem select_speaker_failure_atomic_witness:
  "previous_speaker (fst (snd (select_speaker plain_format
      (example_manager [''Alice'', ''Bob'', ''Carol''] (answering ''Bob'') (Some ''Alice'') False None)
      [other_event ''Bob'' ''HandoffMessage'']))) = Some ''Alice'' \<and>
   previous_speaker (fst (snd (select_speaker plain_format
      (example_manager [''Alice'', ''Bob'', ''Carol''] (failing ''timeout'') (Some ''Alice'') False None)
      example_thread))) = Some ''Alice'' \<and>
   previous_speaker (fst (snd (select_speaker plain_format
      (example_manager [''Alice'', ''Bob'', ''Carol'']
         (answering ''Both Alice and Bob should continue'') (Some ''Alice'') False None)
      example_thread))) = Some ''Alice''"
  using
    select_speaker_failure_atomic[of plain_format
      "example_manager [''Alice'', ''Bob'', ''Carol''] (answering ''Bob'') (Some ''Alice'') False None"
      "[other_event ''Bob'' ''HandoffMessage'']"]
    select_speaker_failure_atomic[of plain_format
      "example_manager [''Alice'', ''Bob'', ''Carol''] (failing ''timeout'') (Some ''Alice'') False None"
      example_thread]
    select_speaker_failure_atomic[of plain_format
      "example_manager [''Alice'', ''Bob'', ''Carol'']
         (answering ''Both Alice and Bob should continue'') (Some ''Alice'') False None"
      example_thread]
  by (simp add: example_round_unsupported example_round_client_fails example_round_ambiguous
        example_fields)

text \<open>
  C7. In a round that reaches the model, when the answer mentions exactly one participant,
  that participant is the previous speaker and repeated speakers are not allowed, the round
  succeeds: it returns that participant, sets \<^verbatim>\<open>_previous_speaker\<close> to it, and the
  only trace of the repetition is a warning logged between the model call and the
  selection event.
\<close>

theorem select_speaker_repeated_speaker_accepted:
  assumes "try_selector_func st thread = Inr None"
    and "render_history thread = Inr history"
    and "render_roles st = Inr roles"
    and "1 < length (candidates st)"
    and "fmt (selector_prompt st) roles (py_str_list (candidates st)) history = Inr prompt"
    and "model_client st [SystemMessage prompt] = Inr (StrContent answer)"
    and "mentioned_names answer (participant_topic_types st) = {n}"
    and "previous_speaker st = Some n"
    and "\<not> allow_repeated_speaker st"
  shows "select_speaker fmt st thread =
           (Inr n, st\<lparr>previous_speaker := Some n\<rparr>,
            [ModelCreate [SystemMessage prompt],
             TraceWarning (''Selector selected the previous speaker: '' @ n),
             EventDebug n (manager_id st)])"
  using assms(8,9) mentioned_agents_single[OF assms(7)]
  by (simp add: select_speaker_model_path_eq[OF assms(1-4), of fmt]
        model_select_answer[of fmt, OF assms(5,6)])

theorem select_speaker_repeated_speaker_accepted_witness:
  "mentioned_names ''Bob'' [''Alice'', ''Bob'', ''Carol''] = {''Bob''} \<and>
   select_speaker plain_format
     (example_manager [''Alice'', ''Bob'', ''Carol''] (answering ''Bob'') (Some ''Bob'') False None)
     example_thread =
   (Inr ''Bob'',
    (example_manager [''Alice'', ''Bob'', ''Carol''] (answering ''Bob'') (Some ''Bob'') False None)
      \<lparr>previous_speaker := Some ''Bob''\<rparr>,
    [ModelCreate [SystemMessage (example_prompt [''Alice'', ''Bob'', ''Carol''] [''Alice'', ''Carol''])],
     TraceWarning ''Selector selected the previous speaker: Bob'',
     EventDebug ''Bob'' example_id])"
proof -
  let ?ps = "[''Alice'', ''Bob'', ''Carol'']"
  let ?st = "example_manager ?ps (answering ''Bob'') (Some ''Bob'') False None"
  have ms: "mentioned_agents ''Bob'' ?ps = [(''Bob'', 1)]" by code_simp
  have m: "mentioned_names ''Bob'' ?ps = {''Bob''}"
    using mentioned_agents_keys[of "''Bob''" ?ps] by (simp add: ms)
  have h4: "1 < length (candidates ?st)" by (simp add: example_candidates_after_Bob)
  have h5: "plain_format (selector_prompt ?st) (example_roles ?ps) (py_str_list (candidates ?st)) ''user: hi'' =
              Inr (example_prompt ?ps [''Alice'', ''Carol''])"
    by (simp only: example_fields example_candidates_after_Bob example_format)
  have h6: "model_client ?st [SystemMessage (example_prompt ?ps [''Alice'', ''Carol''])] =
              Inr (StrContent ''Bob'')"
    by (simp add: example_fields answering_def)
  have h7: "mentioned_names ''Bob'' (participant_topic_types ?st) = {''Bob''}"
    by (simp add: example_fields m)
  have h8: "previous_speaker ?st = Some ''Bob''" by (simp add: example_fields)
  have h9: "\<not> allow_repeated_speaker ?st" by (simp add: example_fields)
  from select_speaker_repeated_speaker_accepted[where fmt = plain_format,
         OF example_try_none example_render_history example_render_roles h4 h5 h6 h7 h8 h9] m
  show ?thesis by (simp add: example_fields)
qed

text \<open>
  C2. The round decided by the selector function returns without writing
  \<^verbatim>\<open>_previous_speaker\<close>. With participants \<^verbatim>\<open>A\<close> and \<^verbatim>\<open>B\<close>, repeated speakers not
  allowed and \<^verbatim>\<open>A\<close> the previous speaker, the selector function picks \<^verbatim>\<open>B\<close> and the
  previous speaker stays \<^verbatim>\<open>A\<close>; in the next round, where the selector function gives no
  decision, \<^verbatim>\<open>A\<close> is filtered out instead of \<^verbatim>\<open>B\<close>, and \<^verbatim>\<open>B\<close> is selected a second
  time in a row.
\<close>

theorem select_speaker_override_stale_previous_speaker:
  "select_speaker plain_format
     (example_manager [''A'', ''B''] (answering ''A'') (Some ''A'') False (Some example_hook))
     example_thread =
   (Inr ''B'',
    example_manager [''A'', ''B''] (answering ''A'') (Some ''A'') False (Some example_hook),
    [EventDebug ''B'' example_id]) \<and>
   previous_speaker
     (example_manager [''A'', ''B''] (answering ''A'') (Some ''A'') False (Some example_hook)) =
     Some ''A'' \<and>
   select_speaker plain_format
     (example_manager [''A'', ''B''] (answering ''A'') (Some ''A'') False (Some example_hook))
     (example_thread @ [text_event ''B'' ''hello'']) =
   (Inr ''B'',
    (example_manager [''A'', ''B''] (answering ''A'') (Some ''A'') False (Some example_hook))
      \<lparr>previous_speaker := Some ''B''\<rparr>,
    [EventDebug ''B'' example_id])"
proof -
  let ?st = "example_manager [''A'', ''B''] (answering ''A'') (Some ''A'') False (Some example_hook)"
  have r1: "select_speaker plain_format ?st example_thread =
              (Inr ''B'', ?st, [EventDebug ''B'' example_id])"
    by (simp add: select_speaker_def try_selector_func_def example_manager_def example_hook_def
          example_thread_def)
  have t: "try_selector_func ?st (example_thread @ [text_event ''B'' ''hello'']) = Inr None"
    by (simp add: try_selector_func_def example_manager_def example_hook_def example_thread_def)
  have h: "render_history (example_thread @ [text_event ''B'' ''hello'']) =
             Inr (''user: hi'' @ [CHR 0x0A] @ ''B: hello'')"
    by (simp add: render_history_def render_message_def example_thread_def text_event_def)
  have r2: "select_speaker plain_format ?st (example_thread @ [text_event ''B'' ''hello'']) =
              (Inr ''B'', ?st\<lparr>previous_speaker := Some ''B''\<rparr>, [EventDebug ''B'' example_id])"
    using select_speaker_single_candidate[where fmt = plain_format,
            OF t h example_render_roles_AB example_candidates_after_A]
    by (simp add: example_fields)
  from r1 r2 show ?thesis by (simp add: example_fields)
qed

text \<open>
  C5, as stated, fails: with \<^verbatim>\<open>Bob\<close> the only candidate, a thread that holds a message of
  an unexpected type makes the round raise, because the history is rendered before the
  candidates are computed.
\<close>

theorem single_candidate_counterexample:
  "candidates (example_manager [''Alice'', ''Bob''] (answering ''Alice'') (Some ''Alice'') False None) =
     [''Bob''] \<and>
   fst (select_speaker plain_format
          (example_manager [''Alice'', ''Bob''] (answering ''Alice'') (Some ''Alice'') False None)
          [other_event ''Bob'' ''HandoffMessage'']) \<noteq> Inr ''Bob''"
  by (simp add: select_speaker_def example_try_none render_history_def render_message_def
        other_event_def candidates_def example_fields)

text \<open>
  C5, amended. The candidates are the participant list without the previous speaker when
  there is one and repeated speakers are not allowed, and the whole list otherwise. For a
  list of at least two distinct participants they are not empty. When the selector
  function gives no decision, the history and the roles are rendered without error, and
  exactly one candidate is left, that candidate is returned and recorded as the previous
  speaker, and the only thing done to the outside is the selection event: the model client
  is not called.
\<close>

theorem candidates_single_shortcut:
  "candidates st =
     (case previous_speaker st of
        None \<Rightarrow> participant_topic_types st
      | Some q \<Rightarrow> if allow_repeated_speaker st then participant_topic_types st
                  else removeAll q (participant_topic_types st)) \<and>
   (2 \<le> length (participant_topic_types st) \<and> distinct (participant_topic_types st) \<longrightarrow>
      candidates st \<noteq> []) \<and>
   (try_selector_func st thread = Inr None \<and> render_history thread = Inr history \<and>
    render_roles st = Inr roles \<and> candidates st = [p] \<longrightarrow>
      select_speaker fmt st thread =
        (Inr p, st\<lparr>previous_speaker := Some p\<rparr>, [EventDebug p (manager_id st)]))"
proof -
  have f: "filter (\<lambda>p. p \<noteq> q) xs = removeAll q xs" for q :: string and xs
    by (induction xs) auto
  have a: "candidates st =
     (case previous_speaker st of
        None \<Rightarrow> participant_topic_types st
      | Some q \<Rightarrow> if allow_repeated_speaker st then participant_topic_types st
                  else removeAll q (participant_topic_types st))"
    by (auto simp: candidates_def f split: option.splits)
  have l: "length xs - 1 \<le> length (removeAll q xs)" if "distinct xs" for q :: string and xs
    using that by (simp add: distinct_remove1_removeAll[symmetric] length_remove1)
  have b: "candidates st \<noteq> []"
    if "2 \<le> length (participant_topic_types st)" "distinct (participant_topic_types st)"
  proof (cases "previous_speaker st")
    case None
    with that show ?thesis by (auto simp: a)
  next
    case (Some q)
    from l[OF that(2), of q] that(1) have "removeAll q (participant_topic_types st) \<noteq> []"
      by (cases "removeAll q (participant_topic_types st)") auto
    with that Some show ?thesis by (auto simp: a)
  qed
  from a b select_speaker_single_candidate[of st thread history roles p fmt]
  show ?thesis by blast
qed

theorem candidates_single_shortcut_witness:
  "candidates (example_manager [''A'', ''B''] (answering ''A'') (Some ''A'') False None) = [''B''] \<and>
   select_speaker plain_format
     (example_manager [''A'', ''B''] (answering ''A'') (Some ''A'') False None) example_thread =
   (Inr ''B'',
    (example_manager [''A'', ''B''] (answering ''A'') (Some ''A'') False None)
      \<lparr>previous_speaker := Some ''B''\<rparr>,
    [EventDebug ''B'' example_id])"
  using candidates_single_shortcut[of
          "example_manager [''A'', ''B''] (answering ''A'') (Some ''A'') False None"
          example_thread "''user: hi''" "example_roles [''A'', ''B'']" "''B''" plain_format]
  by (simp add: example_try_none example_render_history example_render_roles_AB
        example_candidates_after_A example_fields)

text \<open>
  C8, as stated, fails: a text message \<^verbatim>\<open>hi\<close> with a null source is rendered as a space
  followed by \<^verbatim>\<open>hi\<close>, not as the content alone.
\<close>

theorem render_history_counterexample:
  "render_history [\<lparr>agent_message = TextMessage ''user'' ''hi'', source = None\<rparr>] = Inr '' hi'' \<and>
   spec_transcript [\<lparr>agent_message = TextMessage ''user'' ''hi'', source = None\<rparr>] = Inr ''hi''"
  by (simp add: render_history_def render_message_def spec_transcript_def spec_line_def
        spec_body_def source_prefix_def)

text \<open>
  C8, amended. When every message of the thread is a text, stop or multi-modal message,
  the history is the lines of the events joined by newlines; a line is the prefix of the
  source (empty for a null source, the source and a colon otherwise) followed by the body;
  the body of a text or stop message is a space followed by the content; the body of a
  multi-modal message is its items, each preceded by a space, a string item verbatim and
  any other item as \<^verbatim>\<open>[Image]\<close>: a space followed by the space-joined items, or nothing
  when there are no items. The first message of another class makes the rendering raise
  the "unexpected message type" error, and a round in which the selector function gives no
  decision then fails with that error, the manager unchanged and nothing done to the
  outside.
\<close>

theorem render_history_lines:
  "((\<forall>event \<in> set thread. supported (agent_message event)) \<longrightarrow>
      render_history thread = Inr (py_join [CHR 0x0A] (map rendered_line thread))) \<and>
   rendered_line event = source_prefix event @ rendered_body (agent_message event) \<and>
   source_prefix event = (case source event of None \<Rightarrow> [] | Some src \<Rightarrow> agent_type src @ '':'') \<and>
   rendered_body (TextMessage s content) = '' '' @ content \<and>
   rendered_body (StopMessage s content) = '' '' @ content \<and>
   rendered_body (MultiModalMessage s items) =
     (if items = [] then [] else '' '' @ py_join '' '' (map spec_item items)) \<and>
   spec_item (Str x) = x \<and> spec_item (Image i) = ''[Image]'' \<and>
   ((\<forall>event \<in> set pre. supported (agent_message event)) \<and> agent_message bad = OtherMessage src ty \<longrightarrow>
      render_history (pre @ bad # post) = Inl (UnexpectedMessageType ty) \<and>
      (try_selector_func st (pre @ bad # post) = Inr None \<longrightarrow>
         select_speaker fmt st (pre @ bad # post) = (Inl (UnexpectedMessageType ty), st, [])))"
proof -
  have a: "(\<forall>event \<in> set thread. supported (agent_message event)) \<longrightarrow>
      render_history thread = Inr (py_join [CHR 0x0A] (map rendered_line thread))"
    by (simp add: render_history_def history_loop_supported)
  have b: "rendered_body (MultiModalMessage s items) =
     (if items = [] then [] else '' '' @ py_join '' '' (map spec_item items))"
    using concat_spaced_join[of items] by simp
  have c: "render_history (pre @ bad # post) = Inl (UnexpectedMessageType ty)"
    if "\<forall>event \<in> set pre. supported (agent_message event)" "agent_message bad = OtherMessage src ty"
    using history_loop_other[OF that, of "[]" post] by (simp add: render_history_def)
  have d: "select_speaker fmt st (pre @ bad # post) = (Inl (UnexpectedMessageType ty), st, [])"
    if "render_history (pre @ bad # post) = Inl (UnexpectedMessageType ty)"
       "try_selector_func st (pre @ bad # post) = Inr None"
    using that by (simp add: select_speaker_def)
  from a b c d show ?thesis
    by (simp add: rendered_line_def source_prefix_def spec_item_def)
qed

theorem render_history_lines_witness:
  "render_history
     [text_event ''Alice'' ''hi'',
      \<lparr>agent_message = MultiModalMessage ''user'' [Str ''look'', Image ''png'', Str ''here''], source = None\<rparr>,
      \<lparr>agent_message = StopMessage ''Bob'' ''done'', source = None\<rparr>] =
     Inr (''Alice: hi'' @ [CHR 0x0A] @ '' look [Image] here'' @ [CHR 0x0A] @ '' done'') \<and>
   select_speaker plain_format
     (example_manager [''Alice'', ''Bob'', ''Carol''] (answering ''Bob'') (Some ''Alice'') False None)
     [text_event ''Alice'' ''hi'', other_event ''Bob'' ''HandoffMessage'', text_event ''Carol'' ''yo''] =
     (Inl (UnexpectedMessageType ''HandoffMessage''),
      example_manager [''Alice'', ''Bob'', ''Carol''] (answering ''Bob'') (Some ''Alice'') False None, [])"
proof -
  let ?mm = "\<lparr>agent_message = MultiModalMessage ''user'' [Str ''look'', Image ''png'', Str ''here''], source = None\<rparr>"
  let ?stop = "\<lparr>agent_message = StopMessage ''Bob'' ''done'', source = None\<rparr>"
  let ?st = "example_manager [''Alice'', ''Bob'', ''Carol''] (answering ''Bob'') (Some ''Alice'') False None"
  note t1 = render_history_lines[where thread = "[text_event ''Alice'' ''hi'', ?mm, ?stop]",
              THEN conjunct1]
  note t2 = render_history_lines[where pre = "[text_event ''Alice'' ''hi'']"
              and bad = "other_event ''Bob'' ''HandoffMessage''" and src = "''Bob''"
              and ty = "''HandoffMessage''" and post = "[text_event ''Carol'' ''yo'']"
              and st = ?st and fmt = plain_format,
              THEN conjunct2, THEN conjunct2, THEN conjunct2, THEN conjunct2, THEN conjunct2,
              THEN conjunct2, THEN conjunct2, THEN conjunct2]
  have s: "\<forall>event \<in> set [text_event ''Alice'' ''hi'', ?mm, ?stop]. supported (agent_message event)"
    by (simp add: text_event_def)
  have r1: "render_history [text_event ''Alice'' ''hi'', ?mm, ?stop] =
     Inr (''Alice: hi'' @ [CHR 0x0A] @ '' look [Image] here'' @ [CHR 0x0A] @ '' done'')"
    using t1 s
    by (simp add: rendered_line_def source_prefix_def text_event_def spec_item_def)
  have p: "(\<forall>event \<in> set [text_event ''Alice'' ''hi'']. supported (agent_message event)) \<and>
           agent_message (other_event ''Bob'' ''HandoffMessage'') = OtherMessage ''Bob'' ''HandoffMessage''"
    by (simp add: text_event_def other_event_def)
  from t2 p example_try_none[of "[''Alice'', ''Bob'', ''Carol'']" "answering ''Bob''" "Some ''Alice''" False]
  have r2: "select_speaker plain_format ?st
     [text_event ''Alice'' ''hi'', other_event ''Bob'' ''HandoffMessage'', text_event ''Carol'' ''yo''] =
     (Inl (UnexpectedMessageType ''HandoffMessage''), ?st, [])"
    by simp
  from r1 r2 show ?thesis by simp
qed



text \<open>
  C10. The entry of a name in the dictionary is the entry it has when it is the only
  candidate, and its count is the number of matches of the scan for that name alone. So
  when the padded text holds an occurrence of one name spelt verbatim and an occurrence of
  another name spelt with spaces for underscores, at whatever positions and thus also on
  the same characters, both names get a positive count and the dictionary has at least two
  entries; a round whose model answers with such a text fails with the "expected exactly
  one agent" error, the manager unchanged. The text \<^verbatim>\<open>Story writer\<close> is such a case for
  \<^verbatim>\<open>Story\<close> and \<^verbatim>\<open>Story_writer\<close>: the scan for each name finds one match, and both
  matches start at position 1 of the padded text.
\<close>

theorem mentioned_agents_independent:
  "(n \<in> set names \<longrightarrow>
      map_of (mentioned_agents s names) n = map_of (mentioned_agents s [n]) n) \<and>
   map_of (mentioned_agents s [n]) n =
     (if 0 < length (re_finditer (spellings n) (pad s))
      then Some (length (re_finditer (spellings n) (pad s))) else None) \<and>
   (n1 \<in> set names \<and> n2 \<in> set names \<and> n1 \<noteq> n2 \<and>
    delimited_occurrence (pad s) n1 p1 \<and>
    delimited_occurrence (pad s) (replace_underscore '' '' n2) p2 \<longrightarrow>
      map_of (mentioned_agents s names) n1 = Some (length (re_finditer (spellings n1) (pad s))) \<and>
      0 < length (re_finditer (spellings n1) (pad s)) \<and>
      map_of (mentioned_agents s names) n2 = Some (length (re_finditer (spellings n2) (pad s))) \<and>
      0 < length (re_finditer (spellings n2) (pad s)) \<and>
      2 \<le> length (mentioned_agents s names)) \<and>
   (try_selector_func st thread = Inr None \<and> render_history thread = Inr history \<and>
    render_roles st = Inr roles \<and> 1 < length (candidates st) \<and>
    fmt (selector_prompt st) roles (py_str_list (candidates st)) history = Inr prompt \<and>
    model_client st [SystemMessage prompt] = Inr (StrContent s) \<and>
    n1 \<in> set (participant_topic_types st) \<and> n2 \<in> set (participant_topic_types st) \<and> n1 \<noteq> n2 \<and>
    delimited_occurrence (pad s) n1 p1 \<and>
    delimited_occurrence (pad s) (replace_underscore '' '' n2) p2 \<longrightarrow>
      select_speaker fmt st thread =
        (Inl (ExpectedExactlyOneAgent (mentioned_agents s (participant_topic_types st))),
         st, [ModelCreate [SystemMessage prompt]])) \<and>
   re_finditer (spellings ''Story'') (pad ''Story writer'') = [(1, ''Story'')] \<and>
   re_finditer (spellings ''Story_writer'') (pad ''Story writer'') = [(1, ''Story writer'')] \<and>
   replace_underscore '' '' ''Story_writer'' = ''Story writer'' \<and>
   mentioned_agents ''Story writer'' [''Story'', ''Story_writer''] =
     [(''Story'', 1), (''Story_writer'', 1)] \<and>
   fst (select_speaker plain_format
          (example_manager [''Story'', ''Story_writer''] (answering ''Story writer'') None False None)
          example_thread) =
     Inl (ExpectedExactlyOneAgent [(''Story'', 1), (''Story_writer'', 1)])"
proof -
  have c: "mention_count s k = length (re_finditer (spellings k) (pad s))" for k
    by (simp add: mention_count_def re_findall_def)
  have a: "n \<in> set names \<longrightarrow>
      map_of (mentioned_agents s names) n = map_of (mentioned_agents s [n]) n"
    by (simp add: mentioned_agents_map_of)
  have b: "map_of (mentioned_agents s [n]) n =
     (if 0 < length (re_finditer (spellings n) (pad s))
      then Some (length (re_finditer (spellings n) (pad s))) else None)"
    by (simp add: mentioned_agents_map_of c)
  have pos1: "0 < mention_count s n1" if "delimited_occurrence (pad s) n1 p1"
    using that mention_count_positive[of s n1] by (auto simp: spellings_def)
  have pos2: "0 < mention_count s n2" if "delimited_occurrence (pad s) (replace_underscore '' '' n2) p2"
    using that mention_count_positive[of s n2] by (auto simp: spellings_def)
  have two: "2 \<le> length (mentioned_agents s ns)"
    if "n1 \<in> set ns" "n2 \<in> set ns" "n1 \<noteq> n2" "delimited_occurrence (pad s) n1 p1"
       "delimited_occurrence (pad s) (replace_underscore '' '' n2) p2" for ns
    using mentioned_two_names[OF that(1-3) pos1[OF that(4)] pos2[OF that(5)]] .
  have d: "n1 \<in> set names \<and> n2 \<in> set names \<and> n1 \<noteq> n2 \<and>
    delimited_occurrence (pad s) n1 p1 \<and>
    delimited_occurrence (pad s) (replace_underscore '' '' n2) p2 \<longrightarrow>
      map_of (mentioned_agents s names) n1 = Some (length (re_finditer (spellings n1) (pad s))) \<and>
      0 < length (re_finditer (spellings n1) (pad s)) \<and>
      map_of (mentioned_agents s names) n2 = Some (length (re_finditer (spellings n2) (pad s))) \<and>
      0 < length (re_finditer (spellings n2) (pad s)) \<and>
      2 \<le> length (mentioned_agents s names)"
    using pos1 pos2 two[of names] by (auto simp: mentioned_agents_map_of c)
  have e: "try_selector_func st thread = Inr None \<and> render_history thread = Inr history \<and>
    render_roles st = Inr roles \<and> 1 < length (candidates st) \<and>
    fmt (selector_prompt st) roles (py_str_list (candidates st)) history = Inr prompt \<and>
    model_client st [SystemMessage prompt] = Inr (StrContent s) \<and>
    n1 \<in> set (participant_topic_types st) \<and> n2 \<in> set (participant_topic_types st) \<and> n1 \<noteq> n2 \<and>
    delimited_occurrence (pad s) n1 p1 \<and>
    delimited_occurrence (pad s) (replace_underscore '' '' n2) p2 \<longrightarrow>
      select_speaker fmt st thread =
        (Inl (ExpectedExactlyOneAgent (mentioned_agents s (participant_topic_types st))),
         st, [ModelCreate [SystemMessage prompt]])"
    using select_speaker_many_mentions[of st thread history roles fmt prompt s]
      two[of "participant_topic_types st"] by blast
  have f: "replace_underscore '' '' ''Story_writer'' = ''Story writer''" by simp
  have g: "fst (select_speaker plain_format
          (example_manager [''Story'', ''Story_writer''] (answering ''Story writer'') None False None)
          example_thread) =
     Inl (ExpectedExactlyOneAgent [(''Story'', 1), (''Story_writer'', 1)])"
    by (simp add: example_round_Story)
  show ?thesis
    by (intro conjI a b d e example_finditer_Story example_finditer_Story_writer_short f
          example_mentions_Story g)
qed

theorem mentioned_agents_independent_witness:
  "delimited_occurrence (pad ''Story writer'') ''Story'' 1 \<and>
   delimited_occurrence (pad ''Story writer'') (replace_underscore '' '' ''Story_writer'') 1 \<and>
   map_of (mentioned_agents ''Story writer'' [''Story'', ''Story_writer'']) ''Story'' = Some 1 \<and>
   map_of (mentioned_agents ''Story writer'' [''Story'', ''Story_writer'']) ''Story_writer'' = Some 1 \<and>
   2 \<le> length (mentioned_agents ''Story writer'' [''Story'', ''Story_writer'']) \<and>
   select_speaker plain_format
     (example_manager [''Story'', ''Story_writer''] (answering ''Story writer'') None False None)
     example_thread =
   (Inl (ExpectedExactlyOneAgent
          (mentioned_agents ''Story writer'' [''Story'', ''Story_writer''])),
    example_manager [''Story'', ''Story_writer''] (answering ''Story writer'') None False None,
    [ModelCreate [SystemMessage
       (example_prompt [''Story'', ''Story_writer''] [''Story'', ''Story_writer''])]])"
proof -
  let ?ps = "[''Story'', ''Story_writer'']"
  let ?s = "''Story writer''"
  let ?st = "example_manager ?ps (answering ?s) None False None"
  note t = mentioned_agents_independent[where s = ?s and names = ?ps and ?n1.0 = "''Story''"
             and ?n2.0 = "''Story_writer''" and ?p1.0 = 1 and ?p2.0 = 1 and st = ?st
             and thread = example_thread and history = "''user: hi''"
             and roles = "example_roles ?ps" and fmt = plain_format
             and prompt = "example_prompt ?ps ?ps"]
  note t3 = t[THEN conjunct2, THEN conjunct2, THEN conjunct1]
  note t4 = t[THEN conjunct2, THEN conjunct2, THEN conjunct2, THEN conjunct1]
  have h4: "1 < length (candidates ?st)" by (simp add: example_candidates_all)
  have h5: "plain_format (selector_prompt ?st) (example_roles ?ps) (py_str_list (candidates ?st)) ''user: hi'' =
              Inr (example_prompt ?ps ?ps)"
    by (simp only: example_fields example_candidates_all example_format)
  have h6: "model_client ?st [SystemMessage (example_prompt ?ps ?ps)] = Inr (StrContent ?s)"
    by (simp add: example_fields answering_def)
  have m: "''Story'' \<in> set ?ps \<and> ''Story_writer'' \<in> set ?ps \<and> ''Story'' \<noteq> ''Story_writer''"
    by simp
  have r3: "map_of (mentioned_agents ?s ?ps) ''Story'' = Some (length (re_finditer (spellings ''Story'') (pad ?s))) \<and>
      0 < length (re_finditer (spellings ''Story'') (pad ?s)) \<and>
      map_of (mentioned_agents ?s ?ps) ''Story_writer'' = Some (length (re_finditer (spellings ''Story_writer'') (pad ?s))) \<and>
      0 < length (re_finditer (spellings ''Story_writer'') (pad ?s)) \<and>
      2 \<le> length (mentioned_agents ?s ?ps)"
    using t3 m example_occurrence_Story example_occurrence_Story_writer by blast
  have r4: "select_speaker plain_format ?st example_thread =
        (Inl (ExpectedExactlyOneAgent (mentioned_agents ?s (participant_topic_types ?st))),
         ?st, [ModelCreate [SystemMessage (example_prompt ?ps ?ps)]])"
    using t4 m example_try_none[of ?ps "answering ?s" None False] example_render_history
      example_render_roles_Story[of "answering ?s" None False None] h4 h5 h6
      example_occurrence_Story example_occurrence_Story_writer
    by (simp only: example_fields) blast
  from r3 r4 example_occurrence_Story example_occurrence_Story_writer show ?thesis
    by (simp add: example_fields example_finditer_Story example_finditer_Story_writer_short)
qed

text \<open>
  C9. The constructor of the base class runs first and is not part of this file; once it
  has returned, the constructor checks its arguments before it builds anything, so a
  failure comes before any round. A template that lacks one of \<^verbatim>\<open>{roles}\<close>,
  \<^verbatim>\<open>{participants}\<close>, \<^verbatim>\<open>{history}\<close> as a contiguous substring makes the construction
  fail, and with at least two participants the error is a "must contain" error that names
  a placeholder the template lacks. Fewer than two participants make it fail with the
  error about the participants. With at least two participants and a template in which
  all three occur it raises neither error and builds the team.
\<close>

theorem selector_group_chat_init_checks:
  assumes "super_init participants = None"
  shows
  "(\<not> (py_in ''{roles}'' prompt \<and> py_in ''{participants}'' prompt \<and> py_in ''{history}'' prompt) \<longrightarrow>
      (\<exists>e. selector_group_chat_init super_init participants client prompt allow func = Inl e) \<and>
      (2 \<le> length participants \<longrightarrow>
         invalid_template (selector_group_chat_init super_init participants client prompt allow func) \<and>
         (\<exists>f \<in> {''{roles}'', ''{participants}'', ''{history}''}. \<not> py_in f prompt \<and>
            selector_group_chat_init super_init participants client prompt allow func =
              Inl (PromptMustContain f)))) \<and>
   (length participants < 2 \<longrightarrow>
      insufficient_participants
        (selector_group_chat_init super_init participants client prompt allow func) \<and>
      selector_group_chat_init super_init participants client prompt allow func =
        Inl AtLeastTwoParticipants) \<and>
   (2 \<le> length participants \<and>
    py_in ''{roles}'' prompt \<and> py_in ''{participants}'' prompt \<and> py_in ''{history}'' prompt \<longrightarrow>
      \<not> invalid_template (selector_group_chat_init super_init participants client prompt allow func) \<and>
      \<not> insufficient_participants
          (selector_group_chat_init super_init participants client prompt allow func) \<and>
      selector_group_chat_init super_init participants client prompt allow func =
        Inr \<lparr>team_selector_prompt = prompt, team_model_client = client,
             team_allow_repeated_speaker = allow, team_selector_func = func\<rparr>) \<and>
   (py_in f prompt \<longleftrightarrow> (\<exists>pre post. prompt = pre @ f @ post))"
proof -
  have "py_in f prompt \<longleftrightarrow> (\<exists>pre post. prompt = pre @ f @ post)"
    by (rule py_in_substring)
  with assms show ?thesis
    by (simp add: selector_group_chat_init_def)
qed

theorem selector_group_chat_init_checks_witness:
  "accepting [example_agent ''Alice''] = None \<and>
   insufficient_participants
     (selector_group_chat_init accepting [example_agent ''Alice''] (answering ''Alice'')
        default_selector_prompt False None) \<and>
   \<not> py_in ''{history}'' ''{roles} {participants}'' \<and>
   invalid_template
     (selector_group_chat_init accepting [example_agent ''Alice'', example_agent ''Bob'']
        (answering ''Alice'') ''{roles} {participants}'' False None) \<and>
   py_in ''{roles}'' default_selector_prompt \<and> py_in ''{participants}'' default_selector_prompt \<and>
   py_in ''{history}'' default_selector_prompt \<and>
   selector_group_chat_init accepting [example_agent ''Alice'', example_agent ''Bob'']
     (answering ''Alice'') default_selector_prompt False None =
     Inr \<lparr>team_selector_prompt = default_selector_prompt, team_model_client = answering ''Alice'',
          team_allow_repeated_speaker = False, team_selector_func = None\<rparr>"
proof -
  have a: "accepting ps = None" for ps by (simp add: accepting_def)
  have d: "py_in ''{roles}'' default_selector_prompt \<and> py_in ''{participants}'' default_selector_prompt \<and>
           py_in ''{history}'' default_selector_prompt"
    by code_simp
  have n: "\<not> py_in ''{history}'' ''{roles} {participants}''"
    by code_simp
  note t1 = selector_group_chat_init_checks[OF a, where participants = "[example_agent ''Alice'']"
      and client = "answering ''Alice''" and prompt = default_selector_prompt
      and allow = False and func = None]
  note t2 = selector_group_chat_init_checks[OF a,
      where participants = "[example_agent ''Alice'', example_agent ''Bob'']"
      and client = "answering ''Alice''" and prompt = "''{roles} {participants}''"
      and allow = False and func = None]
  note t3 = selector_group_chat_init_checks[OF a,
      where participants = "[example_agent ''Alice'', example_agent ''Bob'']"
      and client = "answering ''Alice''" and prompt = default_selector_prompt
      and allow = False and func = None]
  from t1 have r1: "insufficient_participants
     (selector_group_chat_init accepting [example_agent ''Alice''] (answering ''Alice'')
        default_selector_prompt False None)"
    by simp
  from t2[THEN conjunct1] n have r2: "invalid_template
     (selector_group_chat_init accepting [example_agent ''Alice'', example_agent ''Bob'']
        (answering ''Alice'') ''{roles} {participants}'' False None)"
    by simp
  from t3[THEN conjunct2, THEN conjunct2, THEN conjunct1] d
  have r3: "selector_group_chat_init accepting [example_agent ''Alice'', example_agent ''Bob'']
     (answering ''Alice'') default_selector_prompt False None =
     Inr \<lparr>team_selector_prompt = default_selector_prompt, team_model_client = answering ''Alice'',
          team_allow_repeated_speaker = False, team_selector_func = None\<rparr>"
    by simp
  from a r1 n r2 d r3 show ?thesis by simp
qed

end
